theory Spec2Isabelle
  imports Complex_Main
begin

section \<open>The editor trigger: \<^verbatim>\<open>src/vs_code_extension.js\<close>\<close>

text \<open>
  The extension registers one command, \<^verbatim>\<open>rag.askQuestion\<close>. Its handler opens an
  input box, and when the box resolves it either returns or hands a shell command to
  \<^verbatim>\<open>child_process.exec\<close>, whose callback shows one message.

  The handler is modelled as the list of effects it performs on the editor and the
  operating system, in the order in which it performs them. What the environment
  answers (the value the input box resolves to, the outcome of the child process) is
  an argument of the model.
\<close>

subsection \<open>Effects and environment\<close>

text \<open>
  The calls the handler can make on its host. \<open>ReadFile\<close> stands for a read
  through Node's file-system API: the source never makes one, and the constructor is
  there so that this can be stated.
\<close>

datatype effect =
    ShowInputBox string
  | Exec string
  | ShowErrorMessage string
  | ShowInformationMessage string
  | ReadFile string

text \<open>
  The arguments \<^verbatim>\<open>(error, stdout, stderr)\<close> that \<^verbatim>\<open>exec\<close> passes to its
  callback. \<open>error\<close> is \<open>None\<close> for JavaScript's \<^verbatim>\<open>null\<close> (the process ended with
  exit code 0) and carries the message of the \<^verbatim>\<open>Error\<close> object otherwise.
\<close>

record exec_result =
  error :: "string option"
  stdout :: string
  stderr :: string

text \<open>
  \<^verbatim>\<open>showInputBox\<close> resolves to the text the user typed, or to \<^verbatim>\<open>undefined\<close> when
  the box is dismissed: \<open>None\<close> is \<^verbatim>\<open>undefined\<close>.
\<close>

type_synonym input_box_result = "string option"

type_synonym handler = "input_box_result \<Rightarrow> exec_result \<Rightarrow> effect list"

subsection \<open>The command handler\<close>

text \<open>JavaScript's \<^verbatim>\<open>!question\<close>: true for \<^verbatim>\<open>undefined\<close> and for the empty string only.\<close>

fun falsy :: "input_box_result \<Rightarrow> bool" where
  "falsy None = True"
| "falsy (Some q) = (q = [])"

text \<open>The template literal \<^verbatim>\<open>`python rag_engine.py "${question}"`\<close>.\<close>

definition command_line :: "string \<Rightarrow> string" where
  \<open>command_line question = ''python rag_engine.py "'' @ question @ ''"''\<close>

text \<open>
  The callback given to \<^verbatim>\<open>exec\<close>:
  \<^verbatim>\<open>if (error) { showErrorMessage("Error running RAG"); return; } showInformationMessage(stdout);\<close>
\<close>

definition exec_callback :: "exec_result \<Rightarrow> effect list" where
  "exec_callback r =
     (case error r of
        Some e \<Rightarrow> [ShowErrorMessage ''Error running RAG'']
      | None \<Rightarrow> [ShowInformationMessage (stdout r)])"

text \<open>
  The continuation of the input box:
  \<^verbatim>\<open>(question) => { if (!question) return; exec(`...`, callback); }\<close>
\<close>

definition on_question :: handler where
  "on_question question r =
     (if falsy question then []
      else (case question of
              None \<Rightarrow> []
            | Some q \<Rightarrow> Exec (command_line q) # exec_callback r))"

text \<open>The function registered for the command.\<close>

definition askQuestion :: handler where
  "askQuestion question r =
     ShowInputBox ''Ask a modernization question'' # on_question question r"

subsection \<open>Activation\<close>

text \<open>
  The editor keeps a table of commands. \<^verbatim>\<open>registerCommand\<close> adds an entry and returns
  a disposable; the editor's API refuses an identifier that is already registered.
  \<^verbatim>\<open>activate\<close> registers the handler and pushes the disposable onto the
  subscriptions of the extension context.
\<close>

datatype disposable = CommandRegistration string

datatype host_error = CommandAlreadyExists string

record extension_context =
  subscriptions :: "disposable list"

type_synonym registry = "string \<rightharpoonup> handler"

definition registerCommand ::
  "string \<Rightarrow> handler \<Rightarrow> registry \<Rightarrow> host_error + (registry \<times> disposable)" where
  "registerCommand name h reg =
     (case reg name of
        Some old \<Rightarrow> Inl (CommandAlreadyExists name)
      | None \<Rightarrow> Inr (reg(name \<mapsto> h), CommandRegistration name))"

definition activate ::
  "extension_context \<Rightarrow> registry \<Rightarrow> host_error + (extension_context \<times> registry)" where
  "activate context reg =
     (case registerCommand ''rag.askQuestion'' askQuestion reg of
        Inl e \<Rightarrow> Inl e
      | Inr (reg', disposable) \<Rightarrow>
          Inr (context\<lparr>subscriptions := subscriptions context @ [disposable]\<rparr>, reg'))"

text \<open>Running a command from the palette: the editor looks the handler up and calls it.\<close>

definition executeCommand ::
  "registry \<Rightarrow> string \<Rightarrow> input_box_result \<Rightarrow> exec_result \<Rightarrow> effect list option" where
  "executeCommand reg name question r =
     (case reg name of None \<Rightarrow> None | Some h \<Rightarrow> Some (h question r))"

subsection \<open>Observations on a trace\<close>

fun is_read_file :: "effect \<Rightarrow> bool" where
  "is_read_file (ReadFile p) = True"
| "is_read_file e = False"

fun is_exec :: "effect \<Rightarrow> bool" where
  "is_exec (Exec c) = True"
| "is_exec e = False"

fun is_message :: "effect \<Rightarrow> bool" where
  "is_message (ShowErrorMessage m) = True"
| "is_message (ShowInformationMessage m) = True"
| "is_message e = False"

fun reads_file :: "effect list \<Rightarrow> bool" where
  "reads_file [] = False"
| "reads_file (e # es) = (is_read_file e \<or> reads_file es)"

fun spawns_process :: "effect list \<Rightarrow> bool" where
  "spawns_process [] = False"
| "spawns_process (e # es) = (is_exec e \<or> spawns_process es)"

fun shows_message :: "effect list \<Rightarrow> bool" where
  "shows_message [] = False"
| "shows_message (e # es) = (is_message e \<or> shows_message es)"

fun executed_commands :: "effect list \<Rightarrow> string list" where
  "executed_commands [] = []"
| "executed_commands (Exec c # es) = c # executed_commands es"
| "executed_commands (e # es) = executed_commands es"

subsection \<open>How the shell splits the command\<close>

text \<open>
  On a POSIX host \<^verbatim>\<open>exec\<close> runs \<^verbatim>\<open>/bin/sh -c command\<close>. The part of the shell's
  word splitting that the command line above exercises is modelled: blanks separate
  words outside double quotes, a double quote opens or closes a quoted stretch and is
  removed, and every other character of the fragment stands for itself. A command
  outside the fragment (an unquoted character that is not plain, a dollar sign, a
  backquote or a backslash between double quotes, a quote left open) gives \<open>None\<close>:
  the model says nothing about it.
\<close>

definition sh_blank :: "char \<Rightarrow> bool" where
  "sh_blank c = (c = CHR '' '' \<or> c = CHR 0x09)"

definition sh_plain :: "char \<Rightarrow> bool" where
  "sh_plain c =
     (c \<in> set ''abcdefghijklmnopqrstuvwxyzABCDEFGHIJKLMNOPQRSTUVWXYZ0123456789_-./,:+@'')"

definition sh_quoted_special :: "char \<Rightarrow> bool" where
  "sh_quoted_special c = (c = CHR ''$'' \<or> c = CHR 0x60 \<or> c = CHR 0x5C)"

definition push_word :: "bool \<Rightarrow> string \<Rightarrow> string list \<Rightarrow> string list" where
  "push_word in_word cur acc = (if in_word then acc @ [cur] else acc)"

text \<open>
  \<open>in_quote\<close>: between double quotes; \<open>in_word\<close>: a word has been started;
  \<open>cur\<close>: its characters so far; \<open>acc\<close>: the words finished so far.
\<close>

fun sh_fields :: "bool \<Rightarrow> bool \<Rightarrow> string \<Rightarrow> string list \<Rightarrow> string \<Rightarrow> string list option" where
  "sh_fields in_quote in_word cur acc [] =
     (if in_quote then None else Some (push_word in_word cur acc))"
| "sh_fields in_quote in_word cur acc (c # cs) =
     (if in_quote then
        (if c = CHR 0x22 then sh_fields False True cur acc cs
         else if sh_quoted_special c then None
         else sh_fields True True (cur @ [c]) acc cs)
      else if c = CHR 0x22 then sh_fields True True cur acc cs
      else if sh_blank c then sh_fields False False [] (push_word in_word cur acc) cs
      else if sh_plain c then sh_fields False True (cur @ [c]) acc cs
      else None)"

definition sh_words :: "string \<Rightarrow> string list option" where
  "sh_words command = sh_fields False False [] [] command"

text \<open>
  The arguments \<^verbatim>\<open>rag_engine.py\<close> receives: the words after the interpreter and the
  script name.
\<close>

definition script_arguments :: "string \<Rightarrow> string list option" where
  "script_arguments command = map_option (drop 2) (sh_words command)"

section \<open>The scoring engine\<close>

text \<open>
  The analysis engine (parser adapter, metrics extractor, pattern detector, scoring
  engine, recommendation generator, report assembler) is not among the source files.
  The specification describes the scoring engine by its formulas (sections 3 and 4.4);
  this section writes those formulas down. What the specification leaves to the
  configuration (the penalty functions and the weights) is a parameter.
\<close>

subsection \<open>Data model\<close>

text \<open>Modelled from the spec: the severity of a Finding, \<^verbatim>\<open>info | warning | critical\<close>.\<close>

datatype severity = info | warning | critical

text \<open>
  Modelled from the spec: the risk level, \<^verbatim>\<open>Low | Medium | High | Critical\<close>,
  strictly ordered \<^verbatim>\<open>Low < Medium < High < Critical\<close>; \<open>risk_rank\<close> is the position
  in that order.
\<close>

datatype risk_level = Low | Medium | High | Critical

fun risk_rank :: "risk_level \<Rightarrow> nat" where
  "risk_rank Low = 0"
| "risk_rank Medium = 1"
| "risk_rank High = 2"
| "risk_rank Critical = 3"

text \<open>Modelled from the spec: the detected dialect, \<^verbatim>\<open>legacy | current | unknown\<close>.\<close>

datatype dialect = legacy | current | unknown

text \<open>Modelled from the spec: the closed catalog of section 4.3, in declaration order.\<close>

datatype category =
    DynamicCodeExecution
  | BroadExceptionHandler
  | ModuleLevelMutableState
  | WildcardImport
  | MutableDefaultArgument
  | LongFunction
  | LongLine
  | DeepNesting
  | CommentedOutCode
  | TooManyDependencies
  | LegacyDialectConstruct

text \<open>
  Modelled from the spec: the Metrics record of section 3. The line counts come from
  the raw text; every field derived from the syntax tree is \<open>None\<close> (the
  ``unavailable'' sentinel) when there is no tree.
\<close>

record metrics =
  total_lines :: nat
  code_lines :: nat
  comment_lines :: nat
  blank_lines :: nat
  cyclomatic_complexity :: "nat option"
  max_nesting_depth :: "nat option"
  function_count :: "nat option"
  class_count :: "nat option"
  avg_function_length :: "real option"
  import_count :: "nat option"
  detected_dialect :: dialect

text \<open>
  Modelled from the spec: a Finding of section 3: a category, a severity, an optional
  source location and a description.
\<close>

record finding =
  category :: category
  severity :: severity
  location :: "nat option"
  description :: string

text \<open>
  Modelled from the spec: the Scorecard of section 3: maintainability index, technical
  debt score and risk level.
\<close>

record scorecard =
  maintainability_index :: real
  technical_debt_score :: real
  risk_level :: risk_level

text \<open>
  Modelled from the spec: the scoring weights of the configuration surface (section 6).
  Section 4.4 names a penalty that is a function of the cyclomatic complexity, one of
  the nesting depth, a flat penalty per Finding scaled by its severity, and a
  severity-weighted sum of Findings in the debt score; it fixes none of them.
\<close>

record scoring_weights =
  complexity_penalty :: "nat option \<Rightarrow> real"
  nesting_penalty :: "nat option \<Rightarrow> real"
  finding_penalty :: "severity \<Rightarrow> real"
  debt_weight :: "severity \<Rightarrow> real"

subsection \<open>The two scores\<close>

text \<open>Modelled from the spec: ``clamped to [0, 100]''.\<close>

definition clamp_score :: "real \<Rightarrow> real" where
  "clamp_score x = max 0 (min 100 x)"

text \<open>
  Modelled from the spec: ``Maintainability index starts at 100 and is reduced by
  weighted penalties: a function of cyclomatic complexity, nesting depth, and a flat
  per-Finding penalty scaled by severity; the index is clamped to [0, 100].''
\<close>

definition maintainability :: "scoring_weights \<Rightarrow> metrics \<Rightarrow> finding list \<Rightarrow> real" where
  "maintainability w m fs =
     clamp_score (100
       - complexity_penalty w (cyclomatic_complexity m)
       - nesting_penalty w (max_nesting_depth m)
       - (\<Sum>f\<leftarrow>fs. finding_penalty w (severity f)))"

text \<open>
  Modelled from the spec: ``Technical debt score is the complement-style combination of
  (100 - maintainability index) and a severity-weighted sum of Finding counts, clamped
  to [0, 100].'' The combination is taken to be the sum of the two.
\<close>

definition technical_debt :: "scoring_weights \<Rightarrow> real \<Rightarrow> finding list \<Rightarrow> real" where
  "technical_debt w mi fs =
     clamp_score ((100 - mi) + (\<Sum>f\<leftarrow>fs. debt_weight w (severity f)))"

subsection \<open>The risk level\<close>

text \<open>Modelled from the spec: ``presence of any critical Finding''.\<close>

fun has_critical :: "finding list \<Rightarrow> bool" where
  "has_critical [] = False"
| "has_critical (f # fs) = (severity f = critical \<or> has_critical fs)"

text \<open>
  Modelled from the spec: the documented bands, in priority order: ``debt >= 75 or
  maintainability <= 25 => Critical; debt >= 50 or maintainability <= 50 => High;
  debt >= 25 or maintainability <= 75 => Medium; else Low''. A band is its level, its
  debt threshold and its maintainability threshold.
\<close>

definition risk_bands :: "(risk_level \<times> real \<times> real) list" where
  "risk_bands = [(Critical, 75, 25), (High, 50, 50), (Medium, 25, 75)]"

text \<open>Modelled from the spec: whether the pair of scores meets a band's condition.\<close>

fun band_matches :: "risk_level \<times> real \<times> real \<Rightarrow> real \<Rightarrow> real \<Rightarrow> bool" where
  "band_matches (level, debt_min, mi_max) mi debt = (debt_min \<le> debt \<or> mi \<le> mi_max)"

text \<open>
  Modelled from the spec: ``evaluated in that priority order so the first matching band
  wins'', and \<^verbatim>\<open>Low\<close> when none matches.
\<close>

fun first_band :: "(risk_level \<times> real \<times> real) list \<Rightarrow> real \<Rightarrow> real \<Rightarrow> risk_level" where
  "first_band [] mi debt = Low"
| "first_band (b # bs) mi debt = (if band_matches b mi debt then fst b else first_band bs mi debt)"

text \<open>
  Modelled from the spec: ``any critical Finding forces at least High; otherwise
  thresholds on the two scores determine the level''. With a critical Finding the level
  of the bands is raised to \<^verbatim>\<open>High\<close> when it is lower.
\<close>

definition assign_risk :: "real \<Rightarrow> real \<Rightarrow> bool \<Rightarrow> risk_level" where
  "assign_risk mi debt crit =
     (let banded = first_band risk_bands mi debt
      in if crit \<and> risk_rank banded < risk_rank High then High else banded)"

text \<open>
  Modelled from the spec: the scoring engine, a ``pure function of (Metrics, Findings)
  -> Scorecard'', given the weights.
\<close>

definition scoring_engine :: "scoring_weights \<Rightarrow> metrics \<Rightarrow> finding list \<Rightarrow> scorecard" where
  "scoring_engine w m fs =
     (let mi = maintainability w m fs;
          debt = technical_debt w mi fs
      in \<lparr>maintainability_index = mi,
          technical_debt_score = debt,
          risk_level = assign_risk mi debt (has_critical fs)\<rparr>)"

text \<open>
  Modelled from the spec: the specification names no default weights. This instance
  (a square-root penalty on the complexity, a linear one on the nesting depth, weights
  with critical above warning above info, nothing charged for an unavailable metric)
  serves to evaluate the engine on concrete inputs.
\<close>

definition example_weights :: scoring_weights where
  "example_weights =
     \<lparr>complexity_penalty = (\<lambda>c. case c of None \<Rightarrow> 0 | Some n \<Rightarrow> 5 * sqrt (real (n - 1))),
      nesting_penalty = (\<lambda>d. case d of None \<Rightarrow> 0 | Some n \<Rightarrow> 2 * real n),
      finding_penalty = (\<lambda>s. case s of info \<Rightarrow> 1 | warning \<Rightarrow> 3 | critical \<Rightarrow> 10),
      debt_weight = (\<lambda>s. case s of info \<Rightarrow> 1 | warning \<Rightarrow> 2 | critical \<Rightarrow> 5)\<rparr>"

text \<open>
  Modelled from the spec: the Metrics of a unit that parsed, with no decision point and
  no nesting beyond the given depth; only the fields the scoring engine reads vary.
\<close>

definition flat_metrics :: "nat \<Rightarrow> metrics" where
  "flat_metrics depth =
     \<lparr>total_lines = 1, code_lines = 1, comment_lines = 0, blank_lines = 0,
      cyclomatic_complexity = Some 1, max_nesting_depth = Some depth,
      function_count = Some 0, class_count = Some 0, avg_function_length = None,
      import_count = Some 0, detected_dialect = current\<rparr>"

section \<open>Properties of the trigger\<close>

lemma activate_registers:
  assumes "activate context reg = Inr (context', reg')"
  shows "reg' ''rag.askQuestion'' = Some askQuestion"
  using assms
  by (auto simp: activate_def registerCommand_def split: option.splits)

lemma executeCommand_after_activate:
  assumes "activate context reg = Inr (context', reg')"
  shows "executeCommand reg' ''rag.askQuestion'' question r = Some (askQuestion question r)"
  using activate_registers [OF assms] by (simp add: executeCommand_def)

lemma activate_fresh:
  "activate context Map.empty =
     Inr (context\<lparr>subscriptions := subscriptions context @ [CommandRegistration ''rag.askQuestion'']\<rparr>,
          [''rag.askQuestion'' \<mapsto> askQuestion])"
  by (simp add: activate_def registerCommand_def)

lemma askQuestion_falsy:
  "falsy question \<Longrightarrow> askQuestion question r = [ShowInputBox ''Ask a modernization question'']"
  by (simp add: askQuestion_def on_question_def)

lemma askQuestion_truthy:
  "askQuestion (Some (c # cs)) r =
     ShowInputBox ''Ask a modernization question'' # Exec (command_line (c # cs)) # exec_callback r"
  by (simp add: askQuestion_def on_question_def)

lemma reads_file_exec_callback: "\<not> reads_file (exec_callback r)"
  by (simp add: exec_callback_def split: option.splits)

lemma askQuestion_reads_no_file: "\<not> reads_file (askQuestion question r)"
proof (cases "falsy question")
  case True
  then show ?thesis by (simp add: askQuestion_falsy)
next
  case False
  then obtain c cs where "question = Some (c # cs)"
    by (cases question) (auto simp: neq_Nil_conv)
  then show ?thesis
    by (simp add: askQuestion_truthy reads_file_exec_callback)
qed

lemma script_arguments_plain_question:
  \<open>script_arguments (command_line ''which module is risky?'') = Some [''which module is risky?'']\<close>
  by (simp add: script_arguments_def sh_words_def command_line_def sh_blank_def sh_plain_def
      sh_quoted_special_def push_word_def)

text \<open>
  Claim C1, as stated: when its command is invoked, the trigger supplies a SourceUnit to
  the engine by reading a file, and displays the text that comes back. The handler
  reads no file: on the invocation below it prompts, runs the question-answering script
  on the typed question and shows its output, and no effect of the trace is a file
  read.
\<close>

theorem askQuestion_supplies_no_source_unit_counterexample:
  \<open>askQuestion (Some ''Which module is risky?'')
       \<lparr>error = None, stdout = ''billing.py: High'', stderr = ''''\<rparr>
     = [ShowInputBox ''Ask a modernization question'',
        Exec ''python rag_engine.py "Which module is risky?"'',
        ShowInformationMessage ''billing.py: High'']
   \<and> \<not> reads_file (askQuestion (Some ''Which module is risky?'')
       \<lparr>error = None, stdout = ''billing.py: High'', stderr = ''''\<rparr>)\<close>
  by (simp add: askQuestion_def on_question_def exec_callback_def command_line_def)

text \<open>
  Claim C1, amended: once the extension is activated, invoking \<^verbatim>\<open>rag.askQuestion\<close>
  runs the registered handler, which reads no file whatever the user and the child
  process answer; for a non-empty question it prompts, executes the command line built
  from the question, and then shows the standard output of the process in an information
  message when the process succeeded, and the fixed text \<^verbatim>\<open>Error running RAG\<close> when
  it failed.
\<close>

theorem askQuestion_prompts_and_displays:
  assumes "activate context reg = Inr (context', reg')"
  shows "executeCommand reg' ''rag.askQuestion'' question r = Some (askQuestion question r)
         \<and> \<not> reads_file (askQuestion question r)
         \<and> askQuestion (Some (c # cs)) (r\<lparr>error := None\<rparr>) =
             [ShowInputBox ''Ask a modernization question'',
              Exec (command_line (c # cs)),
              ShowInformationMessage (stdout r)]
         \<and> askQuestion (Some (c # cs)) (r\<lparr>error := Some e\<rparr>) =
             [ShowInputBox ''Ask a modernization question'',
              Exec (command_line (c # cs)),
              ShowErrorMessage ''Error running RAG'']"
  using executeCommand_after_activate [OF assms] askQuestion_reads_no_file
  by (simp add: askQuestion_truthy exec_callback_def)

text \<open>
  The amended claim at a concrete invocation: activation on an empty command table,
  then a question that the script answers, and the same question when the script
  fails.
\<close>

theorem askQuestion_prompts_and_displays_witness:
  \<open>executeCommand [''rag.askQuestion'' \<mapsto> askQuestion] ''rag.askQuestion''
       (Some ''Why is eval risky?'')
       \<lparr>error = None, stdout = ''It runs arbitrary code.'', stderr = ''''\<rparr>
     = Some [ShowInputBox ''Ask a modernization question'',
             Exec ''python rag_engine.py "Why is eval risky?"'',
             ShowInformationMessage ''It runs arbitrary code.'']
   \<and> askQuestion (Some ''Why is eval risky?'')
       \<lparr>error = Some ''Command failed'', stdout = '''', stderr = ''Traceback''\<rparr>
     = [ShowInputBox ''Ask a modernization question'',
        Exec ''python rag_engine.py "Why is eval risky?"'',
        ShowErrorMessage ''Error running RAG'']\<close>
proof -
  have a: "activate \<lparr>subscriptions = []\<rparr> Map.empty =
             Inr (\<lparr>subscriptions = [CommandRegistration ''rag.askQuestion'']\<rparr>,
                  [''rag.askQuestion'' \<mapsto> askQuestion])"
    using activate_fresh [of "\<lparr>subscriptions = []\<rparr>"] by simp
  show ?thesis
    using askQuestion_prompts_and_displays [OF a, of "Some ''Why is eval risky?''"
        "\<lparr>error = None, stdout = ''It runs arbitrary code.'', stderr = ''''\<rparr>"]
    by (simp add: askQuestion_def on_question_def exec_callback_def command_line_def)
qed

text \<open>
  Claim C9: in the \<^verbatim>\<open>rag.askQuestion\<close> command, if the input box resolves to the
  empty string or to no value, the handler returns at once: the prompt is the only
  effect, no child process is spawned and neither an information nor an error message
  is shown.
\<close>

theorem askQuestion_empty_returns:
  assumes "activate context reg = Inr (context', reg')"
    and "question = None \<or> question = Some []"
  shows "executeCommand reg' ''rag.askQuestion'' question r =
           Some [ShowInputBox ''Ask a modernization question'']
         \<and> \<not> spawns_process (askQuestion question r)
         \<and> \<not> shows_message (askQuestion question r)"
proof -
  from assms(2) have f: "falsy question" by auto
  show ?thesis
    using executeCommand_after_activate [OF assms(1)] askQuestion_falsy [OF f] by simp
qed

text \<open>Both cases of claim C9, the dismissed box and the empty answer, on a fresh activation.\<close>

theorem askQuestion_empty_returns_witness:
  \<open>executeCommand [''rag.askQuestion'' \<mapsto> askQuestion] ''rag.askQuestion''
       None \<lparr>error = None, stdout = ''unused'', stderr = ''''\<rparr>
     = Some [ShowInputBox ''Ask a modernization question'']
   \<and> executeCommand [''rag.askQuestion'' \<mapsto> askQuestion] ''rag.askQuestion''
       (Some '''') \<lparr>error = Some ''unused'', stdout = '''', stderr = ''''\<rparr>
     = Some [ShowInputBox ''Ask a modernization question'']\<close>
proof -
  have a: "activate \<lparr>subscriptions = []\<rparr> Map.empty =
             Inr (\<lparr>subscriptions = [CommandRegistration ''rag.askQuestion'']\<rparr>,
                  [''rag.askQuestion'' \<mapsto> askQuestion])"
    using activate_fresh [of "\<lparr>subscriptions = []\<rparr>"] by simp
  have n: "(None :: string option) = None \<or> None = Some []" by simp
  have s: "Some [] = None \<or> Some ([] :: string) = Some []" by simp
  show ?thesis
    using askQuestion_empty_returns [OF a n, of "\<lparr>error = None, stdout = ''unused'', stderr = ''''\<rparr>"]
      askQuestion_empty_returns [OF a s, of "\<lparr>error = Some ''unused'', stdout = '''', stderr = ''''\<rparr>"]
    by simp
qed

text \<open>
  Claim C10: for every question the user enters (a non-empty string, or nothing is
  executed), the one command the handler executes is the text
  \<^verbatim>\<open>python rag_engine.py "\<close>, then the question character for character, then a
  double quote. Consequently a question can end the quoted stretch itself: for the
  question \<^verbatim>\<open>a" "b\<close> the shell hands the script the two arguments \<^verbatim>\<open>a\<close> and
  \<^verbatim>\<open>b\<close>, not the question as one argument.
\<close>

theorem command_line_verbatim:
  \<open>executed_commands (askQuestion (Some (c # cs)) r) =
       [''python rag_engine.py "'' @ (c # cs) @ ''"'']
   \<and> script_arguments (command_line ''a" "b'') = Some [''a'', ''b'']
   \<and> script_arguments (command_line ''a" "b'') \<noteq> Some [''a" "b'']\<close>
  by (simp add: askQuestion_truthy exec_callback_def command_line_def script_arguments_def
      sh_words_def sh_blank_def sh_plain_def sh_quoted_special_def push_word_def
      split: option.splits)

section \<open>Properties of the scoring engine\<close>

lemma clamp_score_range: "0 \<le> clamp_score x \<and> clamp_score x \<le> 100"
  by (simp add: clamp_score_def)

lemma has_critical_iff: "has_critical fs \<longleftrightarrow> (\<exists>f\<in>set fs. severity f = critical)"
  by (induction fs) auto

lemma first_band_risk_bands:
  "first_band risk_bands mi debt =
     (if 75 \<le> debt \<or> mi \<le> 25 then Critical
      else if 50 \<le> debt \<or> mi \<le> 50 then High
      else if 25 \<le> debt \<or> mi \<le> 75 then Medium
      else Low)"
  by (simp add: risk_bands_def)

text \<open>
  In a list of bands ordered from the highest level down, the first band that matches
  has the highest level among those that match.
\<close>

lemma first_band_dominates:
  "b \<in> set bs \<Longrightarrow> band_matches b mi debt \<Longrightarrow> sorted (rev (map (risk_rank \<circ> fst) bs)) \<Longrightarrow>
   risk_rank (fst b) \<le> risk_rank (first_band bs mi debt)"
proof (induction bs)
  case Nil
  then show ?case by simp
next
  case (Cons a bs)
  then show ?case
    by (auto simp: sorted_append)
qed

lemma assign_risk_critical:
  "assign_risk mi debt True = High \<or> assign_risk mi debt True = Critical"
  by (cases "first_band risk_bands mi debt") (simp_all add: assign_risk_def Let_def)

lemma assign_risk_no_critical:
  "assign_risk mi debt False = first_band risk_bands mi debt"
  by (simp add: assign_risk_def)

text \<open>
  Claim C3: for every Metrics and Findings (and whatever the weights), if the Findings
  contain a Finding of severity critical then the risk level of the Scorecard is High or
  Critical; this holds for every value of the two scores.
\<close>

theorem critical_finding_forces_high:
  assumes "\<exists>f\<in>set fs. severity f = critical"
  shows "(risk_level (scoring_engine w m fs) = High
            \<or> risk_level (scoring_engine w m fs) = Critical)
         \<and> (\<forall>mi debt. assign_risk mi debt (has_critical fs) = High
                      \<or> assign_risk mi debt (has_critical fs) = Critical)"
proof -
  from assms have c: "has_critical fs" by (simp add: has_critical_iff)
  with assign_risk_critical show ?thesis by (simp add: scoring_engine_def Let_def)
qed

text \<open>
  One critical Finding in a unit whose scores alone fall in the \<^verbatim>\<open>Low\<close> band
  (maintainability 90, debt 15): the level is \<^verbatim>\<open>High\<close>.
\<close>

theorem critical_finding_forces_high_witness:
  "(\<exists>f\<in>set [\<lparr>category = DynamicCodeExecution, severity = critical,
                location = Some 3, description = ''eval''\<rparr>]. severity f = critical)
   \<and> scoring_engine example_weights (flat_metrics 0)
        [\<lparr>category = DynamicCodeExecution, severity = critical,
          location = Some 3, description = ''eval''\<rparr>]
      = \<lparr>maintainability_index = 90, technical_debt_score = 15, risk_level = High\<rparr>"
proof -
  have h: "\<exists>f\<in>set [\<lparr>category = DynamicCodeExecution, severity = critical,
                      location = Some 3, description = ''eval''\<rparr>]. severity f = critical"
    by simp
  show ?thesis
    using critical_finding_forces_high [OF h, of example_weights "flat_metrics 0"]
    by (simp add: scoring_engine_def Let_def maintainability_def technical_debt_def
        clamp_score_def example_weights_def flat_metrics_def assign_risk_def risk_bands_def)
qed

text \<open>
  Claim C4: when no critical Finding is present, the risk level is read off the two
  scores by the documented bands in the order Critical, High, Medium, else Low: the first
  band whose condition holds gives the level, so every pair of scores has one level, and
  where the conditions of several bands hold (a score on a threshold included) the level
  is the highest of them.
\<close>

theorem risk_bands_first_match:
  assumes "\<forall>f\<in>set fs. severity f \<noteq> critical"
  shows "(let sc = scoring_engine w m fs;
              mi = maintainability_index sc;
              debt = technical_debt_score sc
          in risk_level sc =
               (if 75 \<le> debt \<or> mi \<le> 25 then Critical
                else if 50 \<le> debt \<or> mi \<le> 50 then High
                else if 25 \<le> debt \<or> mi \<le> 75 then Medium
                else Low)
             \<and> (\<forall>b\<in>set risk_bands. band_matches b mi debt \<longrightarrow>
                    risk_rank (fst b) \<le> risk_rank (risk_level sc)))"
proof -
  from assms have c: "\<not> has_critical fs" by (simp add: has_critical_iff)
  have s: "sorted (rev (map (risk_rank \<circ> fst) risk_bands))"
    by (simp add: risk_bands_def)
  show ?thesis
    using c first_band_dominates [OF _ _ s]
    by (simp add: scoring_engine_def Let_def assign_risk_no_critical first_band_risk_bands)
qed

text \<open>
  A unit with one warning whose scores meet the conditions of the High and of the Medium
  band (maintainability 49, debt 53): the level is \<^verbatim>\<open>High\<close>. So it is for a unit with
  no Finding and both scores on the threshold itself (maintainability 50, debt 50).
\<close>

theorem risk_bands_first_match_witness:
  "\<not> has_critical [\<lparr>category = WildcardImport, severity = warning,
                    location = Some 1, description = ''from os import *''\<rparr>]
   \<and> scoring_engine example_weights (flat_metrics 24)
        [\<lparr>category = WildcardImport, severity = warning,
          location = Some 1, description = ''from os import *''\<rparr>]
      = \<lparr>maintainability_index = 49, technical_debt_score = 53, risk_level = High\<rparr>
   \<and> scoring_engine example_weights (flat_metrics 25) []
      = \<lparr>maintainability_index = 50, technical_debt_score = 50, risk_level = High\<rparr>"
proof -
  have h: "\<forall>f\<in>set [\<lparr>category = WildcardImport, severity = warning,
                      location = Some 1, description = ''from os import *''\<rparr>].
             severity f \<noteq> critical"
    by simp
  show ?thesis
    using risk_bands_first_match [OF h, of example_weights "flat_metrics 24"]
    by (simp add: scoring_engine_def Let_def maintainability_def technical_debt_def
        clamp_score_def example_weights_def flat_metrics_def assign_risk_def risk_bands_def)
qed

text \<open>
  Claim C5: for every input of the scoring engine (every Metrics, every list of Findings,
  every choice of weights), the maintainability index and the technical debt score of the
  Scorecard lie in the closed interval from 0 to 100.
\<close>

theorem scores_in_range:
  "0 \<le> maintainability_index (scoring_engine w m fs)
   \<and> maintainability_index (scoring_engine w m fs) \<le> 100
   \<and> 0 \<le> technical_debt_score (scoring_engine w m fs)
   \<and> technical_debt_score (scoring_engine w m fs) \<le> 100"
  by (simp add: scoring_engine_def Let_def maintainability_def technical_debt_def
      clamp_score_range)

end
